theory Spec2Isabelle
  imports Complex_Main
begin

section \<open>JavaScript values\<close>

text \<open>
  The handler of \<^verbatim>\<open>src/solve.js\<close> only handles values that come out of a JSON decoder
  (\<^verbatim>\<open>req.json()\<close>, \<^verbatim>\<open>geminiResponse.json()\<close>), the value \<^verbatim>\<open>undefined\<close> of a
  property that is not there, and object literals it builds itself. A number is a double:
  a finite value, an infinity (a JSON literal out of range decodes to one) or NaN.
  A string is the list of its code units, so that \<open>take\<close> and \<open>length\<close> count what
  \<^verbatim>\<open>substring\<close> counts; a \<open>char\<close> of HOL holds the code units below 256. An object is
  the list of its own properties, read with \<open>map_of\<close>.
\<close>

datatype jsnumber = Finite real | PosInfinity | NegInfinity | NaN

datatype jsvalue =
    JUndefined
  | JNull
  | JBool bool
  | JNum jsnumber
  | JStr string
  | JArr "jsvalue list"
  | JObj "(string \<times> jsvalue) list"

text \<open>What the handler throws itself is a \<^verbatim>\<open>TypeError\<close>; the request body reader, \<^verbatim>\<open>fetch\<close>
  and the response body reader may reject with anything.\<close>

datatype exn = TypeError | SyntaxError | OtherError string

text \<open>\<^verbatim>\<open>ToBoolean\<close>: what \<^verbatim>\<open>if (v)\<close>, \<^verbatim>\<open>!v\<close>, \<^verbatim>\<open>a && b\<close> and \<^verbatim>\<open>a || b\<close> test.\<close>

fun truthy :: "jsvalue \<Rightarrow> bool" where
  "truthy JUndefined = False"
| "truthy JNull = False"
| "truthy (JBool b) = b"
| "truthy (JNum n) = (n \<noteq> Finite 0 \<and> n \<noteq> NaN)"
| "truthy (JStr s) = (s \<noteq> [])"
| "truthy (JArr xs) = True"
| "truthy (JObj kvs) = True"

fun nullish :: "jsvalue \<Rightarrow> bool" where
  "nullish JUndefined = True"
| "nullish JNull = True"
| "nullish v = False"

text \<open>
  Reading property \<open>k\<close> of a value that is neither \<^verbatim>\<open>null\<close> nor \<^verbatim>\<open>undefined\<close>. The index
  \<^verbatim>\<open>[0]\<close> is the property \<open>''0''\<close>. The handler reads \<^verbatim>\<open>userQuery\<close>, \<^verbatim>\<open>base64Image\<close>,
  \<^verbatim>\<open>mimeType\<close>, \<^verbatim>\<open>candidates\<close>, \<^verbatim>\<open>content\<close>, \<^verbatim>\<open>parts\<close>, \<^verbatim>\<open>text\<close>, \<^verbatim>\<open>error\<close>,
  \<^verbatim>\<open>message\<close> and \<^verbatim>\<open>0\<close>: none of them is inherited from a prototype, so an object gives
  its own property or \<^verbatim>\<open>undefined\<close>, an array and a string give their first element at
  \<open>''0''\<close> and \<^verbatim>\<open>undefined\<close> elsewhere, a number and a boolean give \<^verbatim>\<open>undefined\<close>.
\<close>

fun member :: "jsvalue \<Rightarrow> string \<Rightarrow> jsvalue" where
  "member (JObj kvs) k = (case map_of kvs k of None \<Rightarrow> JUndefined | Some v \<Rightarrow> v)"
| "member (JArr xs) k = (if k = ''0'' then (case xs of [] \<Rightarrow> JUndefined | x # _ \<Rightarrow> x) else JUndefined)"
| "member (JStr s) k = (if k = ''0'' then (case s of [] \<Rightarrow> JUndefined | c # _ \<Rightarrow> JStr [c]) else JUndefined)"
| "member v k = JUndefined"

text \<open>\<^verbatim>\<open>v.k\<close> throws on \<^verbatim>\<open>null\<close> and \<^verbatim>\<open>undefined\<close>; \<^verbatim>\<open>v?.k\<close> gives \<^verbatim>\<open>undefined\<close> there.\<close>

definition dot :: "jsvalue \<Rightarrow> string \<Rightarrow> exn + jsvalue" where
  "dot v k = (if nullish v then Inl TypeError else Inr (member v k))"

definition opt_dot :: "jsvalue \<Rightarrow> string \<Rightarrow> jsvalue" where
  "opt_dot v k = (if nullish v then JUndefined else member v k)"

text \<open>
  \<^verbatim>\<open>v.substring(b, e)\<close>: on a string, both bounds are clamped to the length and swapped when
  \<open>b > e\<close>; any other value has no callable \<^verbatim>\<open>substring\<close> (a JSON value is never a
  function), and the call throws a \<^verbatim>\<open>TypeError\<close>.
\<close>

fun substring :: "jsvalue \<Rightarrow> nat \<Rightarrow> nat \<Rightarrow> exn + string" where
  "substring (JStr s) b e =
     (let b' = min b (length s); e' = min e (length s); lo = min b' e'; hi = max b' e'
      in Inr (take (hi - lo) (drop lo s)))"
| "substring v b e = Inl TypeError"

section \<open>Requests, responses and effects\<close>

text \<open>
  \<open>req_json\<close> is what \<^verbatim>\<open>await req.json()\<close> gives: the decoded body, or the exception it
  rejects with. The response is the status and the value passed to \<^verbatim>\<open>res.json\<close>.
\<close>

record request =
  req_method :: string
  req_json :: "exn + jsvalue"

record response =
  status :: nat
  body :: jsvalue

text \<open>
  The arguments of the one \<^verbatim>\<open>fetch\<close> call. \<open>payload\<close> is the value handed to
  \<^verbatim>\<open>JSON.stringify\<close> for the body.
\<close>

record fetch_call =
  url :: string
  http_method :: string
  headers :: "(string \<times> string) list"
  payload :: jsvalue

text \<open>
  The network is a function from the call to its outcome: \<^verbatim>\<open>fetch\<close> rejects, or gives a
  response whose \<^verbatim>\<open>json()\<close> rejects or gives the decoded value. The handler reads nothing
  else of the response.
\<close>

type_synonym fetch_fn = "fetch_call \<Rightarrow> exn + (exn + jsvalue)"

datatype log_arg = LStr string | LVal jsvalue | LExn exn

text \<open>Everything the handler does to the outside, in order.\<close>

datatype event =
    ReadBody
  | Fetch fetch_call
  | ReadUpstream
  | ConsoleError "log_arg list"

fun is_fetch :: "event \<Rightarrow> bool" where
  "is_fetch (Fetch c) = True"
| "is_fetch e = False"

section \<open>The handler\<close>

definition backslash :: char where
  "backslash = CHR 0x5C"

definition systemPrompt :: string where
  "systemPrompt =
     ''You are 'The K Solver', an advanced mathematical computation engine. Your only function is to solve the given mathematical problem. You **must** provide the complete solution steps and the final answer **exclusively** using LaTeX mathematical notation. To enhance clarity, you **must** include brief, descriptive step labels (like LCM, Move, Cancel, Substitute, Simplify) within the LaTeX using the ''
     @ backslash # ''text{} command. For example, use constructs like: '$$ ''
     @ backslash # ''frac{1}{2} + ''
     @ backslash # ''frac{1}{3} = ''
     @ backslash # ''frac{3+2}{6} ''
     @ backslash # ''quad ''
     @ backslash # ''text{(LCM)} $$' or use the 'align*' environment for multi-step solutions with labels. Do not include any introductory text, closing remarks, explanations, descriptions, or any conversational language outside of the ''
     @ backslash # ''text{} command within the math block. Use '$$' for display equations and '$' for inline expressions. If the problem is unsolvable or invalid, output the message '$$ ''
     @ backslash # ''text{Invalid or Unsolvable Problem} $$'.''"

definition apiUrl :: "string \<Rightarrow> string" where
  "apiUrl apiKey =
     ''https://generativelanguage.googleapis.com/v1beta/models/gemini-2.5-flash-preview-09-2025:generateContent?key=''
     @ apiKey"

text \<open>\<^verbatim>\<open>const { userQuery, base64Image, mimeType } = body\<close> throws on \<^verbatim>\<open>null\<close>.\<close>

definition destructure :: "jsvalue \<Rightarrow> exn + jsvalue \<times> jsvalue \<times> jsvalue" where
  "destructure b =
     (if nullish b then Inl TypeError
      else Inr (member b ''userQuery'', member b ''base64Image'', member b ''mimeType''))"

text \<open>Lines 29 to 39: the text part, then the image part when both fields are truthy.\<close>

definition contentsParts :: "jsvalue \<Rightarrow> jsvalue \<Rightarrow> jsvalue \<Rightarrow> jsvalue list" where
  "contentsParts userQuery base64Image mimeType =
     [JObj [(''text'', userQuery)]] @
     (if truthy base64Image \<and> truthy mimeType
      then [JObj [(''inlineData'', JObj [(''mimeType'', mimeType), (''data'', base64Image)])]]
      else [])"

definition build_payload :: "jsvalue list \<Rightarrow> jsvalue" where
  "build_payload parts =
     JObj [(''contents'', JArr [JObj [(''parts'', JArr parts)]]),
           (''systemInstruction'', JObj [(''parts'', JArr [JObj [(''text'', JStr systemPrompt)]])])]"

definition outbound :: "string \<Rightarrow> jsvalue \<Rightarrow> jsvalue \<Rightarrow> jsvalue \<Rightarrow> fetch_call" where
  "outbound apiKey userQuery base64Image mimeType =
     \<lparr>url = apiUrl apiKey,
      http_method = ''POST'',
      headers = [(''Content-Type'', ''application/json'')],
      payload = build_payload (contentsParts userQuery base64Image mimeType)\<rparr>"

text \<open>\<^verbatim>\<open>geminiResult.candidates?.[0]\<close>\<close>

definition first_candidate :: "jsvalue \<Rightarrow> exn + jsvalue" where
  "first_candidate geminiResult =
     (case dot geminiResult ''candidates'' of
        Inl e \<Rightarrow> Inl e
      | Inr cs \<Rightarrow> Inr (opt_dot cs ''0''))"

text \<open>\<^verbatim>\<open>candidate.content?.parts?.[0]?.text\<close>\<close>

definition candidate_text :: "jsvalue \<Rightarrow> exn + jsvalue" where
  "candidate_text candidate =
     (case dot candidate ''content'' of
        Inl e \<Rightarrow> Inl e
      | Inr c \<Rightarrow> Inr (opt_dot (opt_dot (opt_dot c ''parts'') ''0'') ''text''))"

text \<open>\<^verbatim>\<open>candidate.content.parts[0].text\<close>, every step of which can throw.\<close>

definition solutionText :: "jsvalue \<Rightarrow> exn + jsvalue" where
  "solutionText candidate =
     (case dot candidate ''content'' of
        Inl e \<Rightarrow> Inl e
      | Inr c \<Rightarrow>
          (case dot c ''parts'' of
             Inl e \<Rightarrow> Inl e
           | Inr ps \<Rightarrow>
               (case dot ps ''0'' of
                  Inl e \<Rightarrow> Inl e
                | Inr p \<Rightarrow> dot p ''text'')))"

text \<open>The \<^verbatim>\<open>else\<close> branch, lines 64 to 67. The log is written before \<^verbatim>\<open>substring\<close> is called.\<close>

definition upstream_error :: "jsvalue \<Rightarrow> (exn + response) \<times> event list" where
  "upstream_error geminiResult =
     (case dot geminiResult ''error'' of
        Inl e \<Rightarrow> (Inl e, [])
      | Inr err \<Rightarrow>
          (let m = opt_dot err ''message'';
               errorMessage = (if truthy m then m else JStr ''Model returned no content.'');
               logged = [ConsoleError [LStr ''Gemini API Error:'', LVal errorMessage, LVal geminiResult]]
           in case substring errorMessage 0 50 of
                Inl e \<Rightarrow> (Inl e, logged)
              | Inr s \<Rightarrow>
                  (Inr \<lparr>status = 500,
                        body = JObj [(''solution'',
                          JStr (''$$ '' @ backslash # ''text{API Error: } '' @ backslash # ''text{''
                                @ s @ ''...} $$''))]\<rparr>,
                   logged)))"

text \<open>Lines 56 to 68. The condition is \<^verbatim>\<open>candidate && candidate.content?.parts?.[0]?.text\<close>:
  the right operand is evaluated only when the left one is truthy.\<close>

definition respond :: "jsvalue \<Rightarrow> (exn + response) \<times> event list" where
  "respond geminiResult =
     (case first_candidate geminiResult of
        Inl e \<Rightarrow> (Inl e, [])
      | Inr candidate \<Rightarrow>
          (case (if truthy candidate then candidate_text candidate else Inr candidate) of
             Inl e \<Rightarrow> (Inl e, [])
           | Inr cond \<Rightarrow>
               if truthy cond
               then (case solutionText candidate of
                       Inl e \<Rightarrow> (Inl e, [])
                     | Inr t \<Rightarrow> (Inr \<lparr>status = 200, body = JObj [(''solution'', t)]\<rparr>, []))
               else upstream_error geminiResult))"

text \<open>The body of \<^verbatim>\<open>try\<close>, lines 24 to 68: the response it returns or the exception that
  leaves it, and the effects up to that point.\<close>

definition try_block :: "string \<Rightarrow> fetch_fn \<Rightarrow> request \<Rightarrow> (exn + response) \<times> event list" where
  "try_block apiKey fetch req =
     (case req_json req of
        Inl e \<Rightarrow> (Inl e, [ReadBody])
      | Inr b \<Rightarrow>
          (case destructure b of
             Inl e \<Rightarrow> (Inl e, [ReadBody])
           | Inr (userQuery, base64Image, mimeType) \<Rightarrow>
               (let call = outbound apiKey userQuery base64Image mimeType
                in case fetch call of
                     Inl e \<Rightarrow> (Inl e, [ReadBody, Fetch call])
                   | Inr geminiResponse \<Rightarrow>
                       (case geminiResponse of
                          Inl e \<Rightarrow> (Inl e, [ReadBody, Fetch call, ReadUpstream])
                        | Inr geminiResult \<Rightarrow>
                            (case respond geminiResult of
                               (r, evs) \<Rightarrow> (r, [ReadBody, Fetch call, ReadUpstream] @ evs))))))"

definition method_not_allowed :: response where
  "method_not_allowed = \<lparr>status = 405, body = JObj [(''message'', JStr ''Method Not Allowed'')]\<rparr>"

definition config_error :: response where
  "config_error =
     \<lparr>status = 500, body = JObj [(''message'', JStr ''Server configuration error: API Key missing.'')]\<rparr>"

definition internal_error :: response where
  "internal_error =
     \<lparr>status = 500, body = JObj [(''message'', JStr ''Internal server error during computation.'')]\<rparr>"

text \<open>\<^verbatim>\<open>process.env.GEMINI_API_KEY\<close> is a string or \<^verbatim>\<open>undefined\<close>; \<^verbatim>\<open>!apiKey\<close> holds of
  \<^verbatim>\<open>undefined\<close> and of the empty string.\<close>

definition env_value :: "string option \<Rightarrow> jsvalue" where
  "env_value v = (case v of None \<Rightarrow> JUndefined | Some s \<Rightarrow> JStr s)"

text \<open>\<^verbatim>\<open>${apiKey}\<close> in the template literal of the URL.\<close>

definition template :: "string option \<Rightarrow> string" where
  "template v = (case v of None \<Rightarrow> ''undefined'' | Some s \<Rightarrow> s)"

definition handler :: "string option \<Rightarrow> fetch_fn \<Rightarrow> request \<Rightarrow> response \<times> event list" where
  "handler apiKey fetch req =
     (if req_method req \<noteq> ''POST'' then (method_not_allowed, [])
      else if \<not> truthy (env_value apiKey)
      then (config_error,
            [ConsoleError [LStr ''GEMINI_API_KEY is not set in environment variables.'']])
      else (case try_block (template apiKey) fetch req of
              (Inr res, evs) \<Rightarrow> (res, evs)
            | (Inl error, evs) \<Rightarrow>
                (internal_error,
                 evs @ [ConsoleError [LStr ''Backend processing failed:'', LExn error]])))"

section \<open>Concrete invocations\<close>

text \<open>Requests and networks the theorems below are run on.\<close>

definition get_request :: request where
  "get_request = \<lparr>req_method = ''GET'', req_json = Inr (JObj [(''userQuery'', JStr ''1+1'')])\<rparr>"

definition text_request :: request where
  "text_request = \<lparr>req_method = ''POST'', req_json = Inr (JObj [(''userQuery'', JStr ''1+1'')])\<rparr>"

definition image_request :: request where
  "image_request =
     \<lparr>req_method = ''POST'',
      req_json = Inr (JObj [(''userQuery'', JStr ''solve''),
                            (''base64Image'', JStr ''iVBORw0KGgo=''),
                            (''mimeType'', JStr ''image/png'')])\<rparr>"

definition partial_request :: request where
  "partial_request =
     \<lparr>req_method = ''POST'',
      req_json = Inr (JObj [(''userQuery'', JStr ''solve''),
                            (''base64Image'', JStr ''iVBORw0KGgo=''),
                            (''mimeType'', JStr [])])\<rparr>"

definition upstream_down :: fetch_fn where
  "upstream_down call = Inl (OtherError ''fetch failed'')"

definition upstream_answer :: fetch_fn where
  "upstream_answer call =
     Inr (Inr (JObj [(''candidates'',
       JArr [JObj [(''content'', JObj [(''parts'', JArr [JObj [(''text'', JStr ''$$ 2 $$'')]]),
                                       (''role'', JStr ''model'')])]])]))"

definition upstream_null :: fetch_fn where
  "upstream_null call = Inr (Inr JNull)"

definition upstream_numeric_message :: fetch_fn where
  "upstream_numeric_message call =
     Inr (Inr (JObj [(''error'', JObj [(''message'', JNum (Finite 429))])]))"

definition upstream_quota :: fetch_fn where
  "upstream_quota call =
     Inr (Inr (JObj [(''error'',
       JObj [(''code'', JNum (Finite 429)),
             (''message'', JStr ''Resource has been exhausted (e.g. check quota). Please retry later.''),
             (''status'', JStr ''RESOURCE_EXHAUSTED'')])]))"

section \<open>Auxiliary facts\<close>

text \<open>Reading a property of a truthy value never throws.\<close>

lemma truthy_not_nullish: "truthy v \<Longrightarrow> \<not> nullish v"
  by (cases v) simp_all

lemma truthy_opt_dot: "truthy (opt_dot v k) \<Longrightarrow> \<not> nullish v"
  by (auto simp: opt_dot_def)

lemma solutionText_eq:
  assumes "truthy candidate" and "candidate_text candidate = Inr v" and "truthy v"
  shows "solutionText candidate = Inr v"
proof -
  let ?c = "member candidate ''content''"
  let ?ps = "opt_dot ?c ''parts''"
  let ?p = "opt_dot ?ps ''0''"
  have c: "\<not> nullish candidate" using assms(1) by (rule truthy_not_nullish)
  then have v: "v = opt_dot ?p ''text''"
    using assms(2) by (simp add: candidate_text_def dot_def)
  then have p: "\<not> nullish ?p" using assms(3) truthy_opt_dot by blast
  then have ps: "\<not> nullish ?ps" by (auto simp: opt_dot_def)
  then have ct: "\<not> nullish ?c" by (auto simp: opt_dot_def)
  have 1: "?ps = member ?c ''parts''" using ct by (simp add: opt_dot_def)
  have 2: "?p = member ?ps ''0''" using ps by (simp add: opt_dot_def)
  have 3: "v = member ?p ''text''" using p v by (simp add: opt_dot_def)
  show ?thesis
    using c ct ps p 1 2 3 by (simp add: solutionText_def dot_def)
qed

lemma substring_prefix: "substring (JStr s) 0 n = Inr (take n s)"
  by (cases "n \<le> length s") (simp_all add: Let_def)

text \<open>The outbound calls in the list of effects.\<close>

lemma upstream_error_no_fetch: "filter is_fetch (snd (upstream_error r)) = []"
  by (simp add: upstream_error_def Let_def split: sum.split)

lemma respond_no_fetch: "filter is_fetch (snd (respond r)) = []"
  by (simp add: respond_def upstream_error_no_fetch split: sum.split)

lemma try_block_fetches:
  "filter is_fetch (snd (try_block key fetch req)) =
     (case req_json req of
        Inl e \<Rightarrow> []
      | Inr b \<Rightarrow>
          (case destructure b of
             Inl e \<Rightarrow> []
           | Inr (userQuery, base64Image, mimeType) \<Rightarrow>
               [Fetch (outbound key userQuery base64Image mimeType)]))"
proof -
  have "filter is_fetch evs = []" if "respond r = (x, evs)" for r x evs
    using respond_no_fetch [of r] that by simp
  then show ?thesis
    by (simp add: try_block_def Let_def split: sum.split prod.split)
qed

lemma handler_fetches:
  "filter is_fetch (snd (handler apiKey fetch req)) =
     (if req_method req = ''POST'' \<and> truthy (env_value apiKey)
      then filter is_fetch (snd (try_block (template apiKey) fetch req))
      else [])"
  by (simp add: handler_def split: sum.split prod.split)

lemma handler_fetch_events:
  assumes "req_method req = ''POST''"
    and "apiKey = Some key" and "key \<noteq> []"
    and "req_json req = Inr b"
    and "destructure b = Inr (userQuery, base64Image, mimeType)"
  shows "filter is_fetch (snd (handler apiKey fetch req)) =
           [Fetch (outbound key userQuery base64Image mimeType)]"
  using assms by (simp add: handler_fetches try_block_fetches env_value_def template_def)

text \<open>The responses the \<^verbatim>\<open>try\<close> block can return.\<close>

lemma upstream_error_shape:
  assumes "upstream_error r = (Inr res, evs)"
  shows "\<exists>s. res = \<lparr>status = 500, body = JObj [(''solution'', JStr s)]\<rparr>"
  using assms by (auto simp: upstream_error_def Let_def split: sum.splits)

lemma respond_shape:
  assumes "respond r = (Inr res, evs)"
  shows "(\<exists>s. res = \<lparr>status = 500, body = JObj [(''solution'', JStr s)]\<rparr>) \<or>
         (\<exists>t. truthy t \<and> res = \<lparr>status = 200, body = JObj [(''solution'', t)]\<rparr>)"
proof (cases "first_candidate r")
  case (Inl e)
  then show ?thesis using assms by (simp add: respond_def)
next
  case (Inr candidate)
  show ?thesis
  proof (cases "truthy candidate")
    case False
    then show ?thesis
      using assms Inr upstream_error_shape [of r res evs] by (simp add: respond_def)
  next
    case True
    then have "\<not> nullish candidate" by (rule truthy_not_nullish)
    then obtain v where v: "candidate_text candidate = Inr v"
      by (simp add: candidate_text_def dot_def)
    show ?thesis
    proof (cases "truthy v")
      case False
      then show ?thesis
        using assms Inr True v upstream_error_shape [of r res evs] by (simp add: respond_def)
    next
      case tv: True
      then have "solutionText candidate = Inr v" using True v solutionText_eq by blast
      then show ?thesis
        using assms Inr True v tv by (auto simp: respond_def)
    qed
  qed
qed

lemma try_block_shape:
  assumes "try_block key fetch req = (Inr res, evs)"
  shows "(\<exists>s. res = \<lparr>status = 500, body = JObj [(''solution'', JStr s)]\<rparr>) \<or>
         (\<exists>t. truthy t \<and> res = \<lparr>status = 200, body = JObj [(''solution'', t)]\<rparr>)"
proof -
  obtain b where b: "req_json req = Inr b"
    using assms by (cases "req_json req") (simp_all add: try_block_def)
  obtain uq img mt where d: "destructure b = Inr (uq, img, mt)"
    using assms b by (cases "destructure b") (auto simp: try_block_def)
  obtain resp where f: "fetch (outbound key uq img mt) = Inr resp"
    using assms b d by (cases "fetch (outbound key uq img mt)") (simp_all add: try_block_def)
  obtain r where r: "resp = Inr r"
    using assms b d f by (cases resp) (simp_all add: try_block_def)
  have "fst (respond r) = Inr res"
    using assms b d f r by (simp add: try_block_def split: prod.splits)
  then have "respond r = (Inr res, snd (respond r))"
    by (metis prod.collapse)
  then show ?thesis by (rule respond_shape)
qed

lemma handler_post:
  assumes "req_method req = ''POST''" and "truthy (env_value apiKey)"
  shows "fst (handler apiKey fetch req) =
           (case fst (try_block (template apiKey) fetch req) of
              Inl e \<Rightarrow> internal_error
            | Inr res \<Rightarrow> res)"
  using assms by (simp add: handler_def split: prod.split sum.split)

section \<open>The method check\<close>

text \<open>
  C4. Every invocation whose method is not \<^verbatim>\<open>POST\<close> is answered with status 405 and the
  body \<^verbatim>\<open>{ message: "Method Not Allowed" }\<close>, whatever the secret, the request body and the
  network are; the handler does nothing else: it reads no body, logs nothing and makes no
  outbound call (the list of effects is empty).
\<close>

theorem method_check:
  assumes "req_method req \<noteq> ''POST''"
  shows "handler apiKey fetch req =
           (\<lparr>status = 405, body = JObj [(''message'', JStr ''Method Not Allowed'')]\<rparr>, [])"
  using assms by (simp add: handler_def method_not_allowed_def)

theorem method_check_witness:
  "req_method get_request \<noteq> ''POST'' \<and>
   handler (Some ''k'') upstream_down get_request =
     (\<lparr>status = 405, body = JObj [(''message'', JStr ''Method Not Allowed'')]\<rparr>, [])"
  using method_check [of get_request "Some ''k''" upstream_down]
  by (simp add: get_request_def)

section \<open>The configuration check\<close>

text \<open>
  C5. For every \<^verbatim>\<open>POST\<close> invocation, if the secret is absent (or is the empty string, which
  \<^verbatim>\<open>!apiKey\<close> treats alike), the handler answers with status 500 and the body
  \<^verbatim>\<open>{ message: "Server configuration error: API Key missing." }\<close>. Its only effect is the
  one line it logs: the check comes before the body is read and before any outbound call,
  so none is made.
\<close>

theorem missing_secret:
  assumes "req_method req = ''POST''"
    and "apiKey = None \<or> apiKey = Some []"
  shows "handler apiKey fetch req =
           (\<lparr>status = 500,
             body = JObj [(''message'', JStr ''Server configuration error: API Key missing.'')]\<rparr>,
            [ConsoleError [LStr ''GEMINI_API_KEY is not set in environment variables.'']])"
  using assms by (auto simp: handler_def env_value_def config_error_def)

theorem missing_secret_witness:
  "handler None upstream_answer text_request =
     (\<lparr>status = 500,
       body = JObj [(''message'', JStr ''Server configuration error: API Key missing.'')]\<rparr>,
      [ConsoleError [LStr ''GEMINI_API_KEY is not set in environment variables.'']])"
  by (rule missing_secret) (simp_all add: text_request_def)

section \<open>The outbound payload\<close>

text \<open>
  C6. For every \<^verbatim>\<open>POST\<close> invocation with the secret set whose body is an object in which
  \<^verbatim>\<open>userQuery\<close>, \<^verbatim>\<open>base64Image\<close> and \<^verbatim>\<open>mimeType\<close> are all set (the two image fields to
  truthy values: for a string, a non-empty one), the one outbound call carries a payload
  whose \<^verbatim>\<open>contents\<close> hold exactly two parts, the text part first and the inline-data part
  second, with \<^verbatim>\<open>mimeType\<close> and \<^verbatim>\<open>data\<close> copied from the request as they are, and whose
  \<^verbatim>\<open>systemInstruction\<close> has the fixed system prompt as its single part.
\<close>

theorem image_payload:
  assumes "req_method req = ''POST''"
    and "apiKey = Some key" and "key \<noteq> []"
    and "req_json req = Inr (JObj kvs)"
    and "map_of kvs ''userQuery'' = Some userQuery"
    and "map_of kvs ''base64Image'' = Some base64Image" and "truthy base64Image"
    and "map_of kvs ''mimeType'' = Some mimeType" and "truthy mimeType"
  shows "filter is_fetch (snd (handler apiKey fetch req)) =
           [Fetch \<lparr>url = ''https://generativelanguage.googleapis.com/v1beta/models/gemini-2.5-flash-preview-09-2025:generateContent?key='' @ key,
                   http_method = ''POST'',
                   headers = [(''Content-Type'', ''application/json'')],
                   payload = JObj
                     [(''contents'', JArr [JObj [(''parts'', JArr
                         [JObj [(''text'', userQuery)],
                          JObj [(''inlineData'',
                                 JObj [(''mimeType'', mimeType), (''data'', base64Image)])]])]]),
                      (''systemInstruction'',
                         JObj [(''parts'', JArr [JObj [(''text'', JStr systemPrompt)]])])]\<rparr>]"
proof -
  have "destructure (JObj kvs) = Inr (userQuery, base64Image, mimeType)"
    using assms(5,6,8) by (simp add: destructure_def)
  then have "filter is_fetch (snd (handler apiKey fetch req)) =
               [Fetch (outbound key userQuery base64Image mimeType)]"
    using assms(1-4) by (rule handler_fetch_events [rotated 4])
  then show ?thesis
    using assms(7,9) by (simp add: outbound_def apiUrl_def build_payload_def contentsParts_def)
qed

theorem image_payload_witness:
  "filter is_fetch (snd (handler (Some ''k'') upstream_answer image_request)) =
     [Fetch \<lparr>url = ''https://generativelanguage.googleapis.com/v1beta/models/gemini-2.5-flash-preview-09-2025:generateContent?key=k'',
             http_method = ''POST'',
             headers = [(''Content-Type'', ''application/json'')],
             payload = JObj
               [(''contents'', JArr [JObj [(''parts'', JArr
                   [JObj [(''text'', JStr ''solve'')],
                    JObj [(''inlineData'',
                           JObj [(''mimeType'', JStr ''image/png''),
                                 (''data'', JStr ''iVBORw0KGgo='')])]])]]),
                (''systemInstruction'',
                   JObj [(''parts'', JArr [JObj [(''text'', JStr systemPrompt)]])])]\<rparr>]"
  using image_payload
    [where req = image_request and apiKey = "Some ''k''" and key = "''k''"
       and kvs = "[(''userQuery'', JStr ''solve''), (''base64Image'', JStr ''iVBORw0KGgo=''),
                      (''mimeType'', JStr ''image/png'')]"
       and userQuery = "JStr ''solve''" and base64Image = "JStr ''iVBORw0KGgo=''"
       and mimeType = "JStr ''image/png''" and fetch = upstream_answer]
  by (simp add: image_request_def)

text \<open>
  C7. For every \<^verbatim>\<open>POST\<close> invocation with the secret set whose body is an object in which
  \<^verbatim>\<open>userQuery\<close> is set and neither \<^verbatim>\<open>base64Image\<close> nor \<^verbatim>\<open>mimeType\<close> is there, the
  content parts of the outbound payload are exactly one text part carrying \<^verbatim>\<open>userQuery\<close>,
  and no inline-data part.
\<close>

theorem text_only_payload:
  assumes "req_method req = ''POST''"
    and "apiKey = Some key" and "key \<noteq> []"
    and "req_json req = Inr (JObj kvs)"
    and "map_of kvs ''userQuery'' = Some userQuery"
    and "map_of kvs ''base64Image'' = None"
    and "map_of kvs ''mimeType'' = None"
  shows "filter is_fetch (snd (handler apiKey fetch req)) =
           [Fetch \<lparr>url = ''https://generativelanguage.googleapis.com/v1beta/models/gemini-2.5-flash-preview-09-2025:generateContent?key='' @ key,
                   http_method = ''POST'',
                   headers = [(''Content-Type'', ''application/json'')],
                   payload = JObj
                     [(''contents'', JArr [JObj [(''parts'', JArr [JObj [(''text'', userQuery)]])]]),
                      (''systemInstruction'',
                         JObj [(''parts'', JArr [JObj [(''text'', JStr systemPrompt)]])])]\<rparr>]"
proof -
  have "destructure (JObj kvs) = Inr (userQuery, JUndefined, JUndefined)"
    using assms(5,6,7) by (simp add: destructure_def)
  then have "filter is_fetch (snd (handler apiKey fetch req)) =
               [Fetch (outbound key userQuery JUndefined JUndefined)]"
    using assms(1-4) by (rule handler_fetch_events [rotated 4])
  then show ?thesis
    by (simp add: outbound_def apiUrl_def build_payload_def contentsParts_def)
qed

theorem text_only_payload_witness:
  "filter is_fetch (snd (handler (Some ''k'') upstream_answer text_request)) =
     [Fetch \<lparr>url = ''https://generativelanguage.googleapis.com/v1beta/models/gemini-2.5-flash-preview-09-2025:generateContent?key=k'',
             http_method = ''POST'',
             headers = [(''Content-Type'', ''application/json'')],
             payload = JObj
               [(''contents'', JArr [JObj [(''parts'', JArr [JObj [(''text'', JStr ''1+1'')]])]]),
                (''systemInstruction'',
                   JObj [(''parts'', JArr [JObj [(''text'', JStr systemPrompt)]])])]\<rparr>]"
  using text_only_payload
    [where req = text_request and apiKey = "Some ''k''" and key = "''k''"
       and kvs = "[(''userQuery'', JStr ''1+1'')]"
       and userQuery = "JStr ''1+1''" and fetch = upstream_answer]
  by (simp add: text_request_def)

text \<open>
  C10. For every \<^verbatim>\<open>POST\<close> invocation with the secret set and every decoded request body
  in which at least one of \<^verbatim>\<open>base64Image\<close> and \<^verbatim>\<open>mimeType\<close> is absent, \<^verbatim>\<open>null\<close>, the
  empty string or any other falsy value, the outbound payload holds exactly the single
  text part: the inline-data part is gated on both fields being truthy, so a part with
  only one of them is never built. (The body \<^verbatim>\<open>null\<close> has no fields at all; destructuring
  it throws and no payload is built.)
\<close>

theorem no_partial_inline_data:
  assumes "req_method req = ''POST''"
    and "apiKey = Some key" and "key \<noteq> []"
    and "req_json req = Inr b"
    and "\<not> truthy (member b ''base64Image'') \<or> \<not> truthy (member b ''mimeType'')"
  shows "filter is_fetch (snd (handler apiKey fetch req)) =
           (if nullish b then []
            else
              [Fetch \<lparr>url = ''https://generativelanguage.googleapis.com/v1beta/models/gemini-2.5-flash-preview-09-2025:generateContent?key='' @ key,
                      http_method = ''POST'',
                      headers = [(''Content-Type'', ''application/json'')],
                      payload = JObj
                        [(''contents'', JArr [JObj [(''parts'', JArr
                            [JObj [(''text'', member b ''userQuery'')]])]]),
                         (''systemInstruction'',
                            JObj [(''parts'', JArr [JObj [(''text'', JStr systemPrompt)]])])]\<rparr>])"
proof (cases "nullish b")
  case True
  then show ?thesis
    using assms(1-4)
    by (simp add: handler_fetches try_block_fetches destructure_def env_value_def)
next
  case False
  then have "destructure b =
          Inr (member b ''userQuery'', member b ''base64Image'', member b ''mimeType'')"
    by (simp add: destructure_def)
  then have "filter is_fetch (snd (handler apiKey fetch req)) =
               [Fetch (outbound key (member b ''userQuery'') (member b ''base64Image'')
                         (member b ''mimeType''))]"
    using assms(1-4) by (rule handler_fetch_events [rotated 4])
  then show ?thesis
    using assms(5) False
    by (auto simp: outbound_def apiUrl_def build_payload_def contentsParts_def)
qed

theorem no_partial_inline_data_witness:
  "filter is_fetch (snd (handler (Some ''k'') upstream_answer partial_request)) =
     [Fetch \<lparr>url = ''https://generativelanguage.googleapis.com/v1beta/models/gemini-2.5-flash-preview-09-2025:generateContent?key=k'',
             http_method = ''POST'',
             headers = [(''Content-Type'', ''application/json'')],
             payload = JObj
               [(''contents'', JArr [JObj [(''parts'', JArr [JObj [(''text'', JStr ''solve'')]])]]),
                (''systemInstruction'',
                   JObj [(''parts'', JArr [JObj [(''text'', JStr systemPrompt)]])])]\<rparr>]"
  using no_partial_inline_data
    [where req = partial_request and apiKey = "Some ''k''" and key = "''k''"
       and b = "JObj [(''userQuery'', JStr ''solve''), (''base64Image'', JStr ''iVBORw0KGgo=''),
                      (''mimeType'', JStr [])]"
       and fetch = upstream_answer]
  by (simp add: partial_request_def)

section \<open>The upstream call\<close>

text \<open>
  C8. Every invocation, whatever the method, the secret, the body and the behaviour of the
  network, makes at most one outbound call; each call made is a \<^verbatim>\<open>POST\<close> to the fixed
  endpoint, the URL ending in the secret as the \<^verbatim>\<open>key\<close> query parameter, with the single
  header \<^verbatim>\<open>Content-Type: application/json\<close>. There is no second attempt on any path:
  the bound holds also when \<^verbatim>\<open>fetch\<close> rejects or the upstream answer is unusable.
  A \<^verbatim>\<open>POST\<close> invocation with the secret set whose body decodes to a value other than
  \<^verbatim>\<open>null\<close> reaches the upstream step and makes exactly one call.
\<close>

theorem single_upstream_call:
  "length (filter is_fetch (snd (handler apiKey fetch req))) \<le> 1 \<and>
   (\<forall>call. Fetch call \<in> set (snd (handler apiKey fetch req)) \<longrightarrow>
      (\<exists>key. apiKey = Some key \<and> key \<noteq> [] \<and>
         url call = ''https://generativelanguage.googleapis.com/v1beta/models/gemini-2.5-flash-preview-09-2025:generateContent?key='' @ key) \<and>
      http_method call = ''POST'' \<and>
      headers call = [(''Content-Type'', ''application/json'')]) \<and>
   (req_method req = ''POST'' \<and> truthy (env_value apiKey) \<and> req_json req = Inr b \<and> \<not> nullish b
      \<longrightarrow> length (filter is_fetch (snd (handler apiKey fetch req))) = 1)"
proof -
  define F where "F = filter is_fetch (snd (handler apiKey fetch req))"
  have F: "F = [] \<or>
           (\<exists>key uq img mt. apiKey = Some key \<and> key \<noteq> [] \<and> F = [Fetch (outbound key uq img mt)])"
    unfolding F_def
    by (cases apiKey)
       (auto simp: handler_fetches try_block_fetches env_value_def template_def
             split: sum.splits)
  have one: "length F = 1"
    if "req_method req = ''POST''" "truthy (env_value apiKey)" "req_json req = Inr b" "\<not> nullish b"
    unfolding F_def
    using that by (simp add: handler_fetches try_block_fetches destructure_def)
  have mem: "Fetch call \<in> set F" if "Fetch call \<in> set (snd (handler apiKey fetch req))" for call
    unfolding F_def using that by simp
  have shape: "(\<exists>key. apiKey = Some key \<and> key \<noteq> [] \<and>
         url call = ''https://generativelanguage.googleapis.com/v1beta/models/gemini-2.5-flash-preview-09-2025:generateContent?key='' @ key) \<and>
      http_method call = ''POST'' \<and>
      headers call = [(''Content-Type'', ''application/json'')]"
    if "Fetch call \<in> set (snd (handler apiKey fetch req))" for call
  proof -
    from F mem [OF that] obtain key uq img mt
      where k: "apiKey = Some key" "key \<noteq> []" and c: "call = outbound key uq img mt"
      by auto
    show ?thesis using k by (simp add: c outbound_def apiUrl_def)
  qed
  have le: "length F \<le> 1" using F by auto
  show ?thesis using le shape one unfolding F_def by blast
qed

theorem single_upstream_call_witness:
  "length (filter is_fetch (snd (handler (Some ''k'') upstream_down text_request))) = 1 \<and>
   length (filter is_fetch (snd (handler None upstream_down text_request))) \<le> 1"
  using single_upstream_call [of "Some ''k''" upstream_down text_request "JObj [(''userQuery'', JStr ''1+1'')]"]
    single_upstream_call [of None upstream_down text_request JNull]
  by (simp add: text_request_def env_value_def)

section \<open>The response mapping\<close>

text \<open>
  C1. For every \<^verbatim>\<open>POST\<close> invocation with the secret set (a non-empty string), if the
  upstream response decodes to an object whose \<^verbatim>\<open>candidates\<close> array has a first candidate
  whose \<^verbatim>\<open>content.parts[0].text\<close> is a non-empty string, the handler answers with status
  200 and the body \<^verbatim>\<open>{ solution: text }\<close>, the text being the upstream one unchanged.
\<close>

theorem candidate_text_passed_through:
  assumes "req_method req = ''POST''"
    and "apiKey = Some key" and "key \<noteq> []"
    and "req_json req = Inr b"
    and "destructure b = Inr (userQuery, base64Image, mimeType)"
    and "fetch (outbound key userQuery base64Image mimeType) = Inr (Inr (JObj result))"
    and "map_of result ''candidates'' = Some (JArr (JObj candidate # others))"
    and "map_of candidate ''content'' = Some (JObj content)"
    and "map_of content ''parts'' = Some (JArr (JObj part # parts))"
    and "map_of part ''text'' = Some (JStr t)"
    and "t \<noteq> []"
  shows "fst (handler apiKey fetch req) = \<lparr>status = 200, body = JObj [(''solution'', JStr t)]\<rparr>"
  using assms
  by (simp add: handler_def env_value_def template_def try_block_def respond_def
      first_candidate_def candidate_text_def solutionText_def dot_def opt_dot_def)

theorem candidate_text_passed_through_witness:
  "fst (handler (Some ''k'') upstream_answer text_request) =
     \<lparr>status = 200, body = JObj [(''solution'', JStr ''$$ 2 $$'')]\<rparr>"
  by (rule candidate_text_passed_through
        [where key = "''k''" and b = "JObj [(''userQuery'', JStr ''1+1'')]"
           and userQuery = "JStr ''1+1''" and base64Image = JUndefined and mimeType = JUndefined
           and others = "[]" and parts = "[]"
           and part = "[(''text'', JStr ''$$ 2 $$'')]"
           and content = "[(''parts'', JArr [JObj [(''text'', JStr ''$$ 2 $$'')]]), (''role'', JStr ''model'')]"
           and candidate = "[(''content'', JObj [(''parts'', JArr [JObj [(''text'', JStr ''$$ 2 $$'')]]), (''role'', JStr ''model'')])]"
           and result = "[(''candidates'', JArr [JObj [(''content'', JObj [(''parts'', JArr [JObj [(''text'', JStr ''$$ 2 $$'')]]), (''role'', JStr ''model'')])]])]"])
     (simp_all add: text_request_def upstream_answer_def destructure_def)

text \<open>
  C2, as amended. For every \<^verbatim>\<open>POST\<close> invocation with the secret set, if the upstream
  response decodes to a value other than \<^verbatim>\<open>null\<close> in which the first candidate or its
  \<^verbatim>\<open>content.parts[0].text\<close> is missing or falsy, and the upstream \<^verbatim>\<open>error.message\<close> is
  either a non-empty string or missing or falsy, then the handler answers with status 500
  and a body \<^verbatim>\<open>{ solution: string }\<close> whose string is the fixed markup of the source
  around \<open>m\<close> followed by three dots, where \<open>m\<close> is the first 50 code units of the
  upstream error message when that is a non-empty string, and of the fallback
  \<^verbatim>\<open>Model returned no content.\<close> otherwise.
\<close>

theorem upstream_error_reported:
  assumes "req_method req = ''POST''"
    and "apiKey = Some key" and "key \<noteq> []"
    and "req_json req = Inr b"
    and "destructure b = Inr (userQuery, base64Image, mimeType)"
    and "fetch (outbound key userQuery base64Image mimeType) = Inr (Inr geminiResult)"
    and "first_candidate geminiResult = Inr candidate"
    and "\<not> truthy candidate \<or> (candidate_text candidate = Inr t \<and> \<not> truthy t)"
    and "opt_dot (member geminiResult ''error'') ''message'' = m"
    and "(m = JStr s \<and> s \<noteq> []) \<or> (\<not> truthy m \<and> s = ''Model returned no content.'')"
  shows "fst (handler apiKey fetch req) =
           \<lparr>status = 500,
            body = JObj [(''solution'',
              JStr (''$$ '' @ backslash # ''text{API Error: } '' @ backslash # ''text{''
                    @ take 50 s @ ''...} $$''))]\<rparr>"
proof -
  have n: "\<not> nullish geminiResult"
    using assms(7) by (auto simp: first_candidate_def dot_def split: if_splits)
  have e: "fst (upstream_error geminiResult) =
           Inr \<lparr>status = 500,
            body = JObj [(''solution'',
              JStr (''$$ '' @ backslash # ''text{API Error: } '' @ backslash # ''text{''
                    @ take 50 s @ ''...} $$''))]\<rparr>"
    using n assms(9,10)
    by (auto simp: upstream_error_def dot_def Let_def substring_prefix simp del: substring.simps)
  have "fst (respond geminiResult) = fst (upstream_error geminiResult)"
    using assms(7,8) by (auto simp: respond_def)
  then have "fst (try_block key fetch req) = fst (upstream_error geminiResult)"
    using assms(4,5,6) by (simp add: try_block_def case_prod_beta)
  then show ?thesis
    using assms(1,2,3) e handler_post [of req apiKey fetch]
    by (simp add: env_value_def template_def)
qed

theorem upstream_error_reported_witness:
  "fst (handler (Some ''k'') upstream_quota text_request) =
     \<lparr>status = 500,
      body = JObj [(''solution'',
        JStr (''$$ '' @ backslash # ''text{API Error: } '' @ backslash
              # ''text{Resource has been exhausted (e.g. check quota). Pl...} $$''))]\<rparr>"
  using upstream_error_reported
    [where req = text_request and apiKey = "Some ''k''" and key = "''k''"
       and b = "JObj [(''userQuery'', JStr ''1+1'')]"
       and userQuery = "JStr ''1+1''" and base64Image = JUndefined and mimeType = JUndefined
       and fetch = upstream_quota
       and geminiResult = "JObj [(''error'',
             JObj [(''code'', JNum (Finite 429)),
                   (''message'', JStr ''Resource has been exhausted (e.g. check quota). Please retry later.''),
                   (''status'', JStr ''RESOURCE_EXHAUSTED'')])]"
       and candidate = JUndefined
       and m = "JStr ''Resource has been exhausted (e.g. check quota). Please retry later.''"
       and s = "''Resource has been exhausted (e.g. check quota). Please retry later.''"]
  by (simp add: text_request_def upstream_quota_def destructure_def first_candidate_def
      dot_def opt_dot_def)

text \<open>
  The statement fails without the two restrictions on the upstream value. An upstream
  response that decodes to \<^verbatim>\<open>null\<close> has no candidate, and reading \<^verbatim>\<open>candidates\<close> of it
  throws; an upstream error message that is a number has no \<^verbatim>\<open>substring\<close>, and calling
  it throws. Both exceptions reach the \<^verbatim>\<open>catch\<close>, and the body is the \<^verbatim>\<open>{ message }\<close>
  of the internal error, with no \<^verbatim>\<open>solution\<close> property.
\<close>

theorem upstream_error_reported_counterexample:
  "fst (handler (Some ''k'') upstream_null text_request) =
     \<lparr>status = 500,
      body = JObj [(''message'', JStr ''Internal server error during computation.'')]\<rparr> \<and>
   member (body (fst (handler (Some ''k'') upstream_null text_request))) ''solution'' = JUndefined \<and>
   fst (handler (Some ''k'') upstream_numeric_message text_request) =
     \<lparr>status = 500,
      body = JObj [(''message'', JStr ''Internal server error during computation.'')]\<rparr> \<and>
   member (body (fst (handler (Some ''k'') upstream_numeric_message text_request))) ''solution''
     = JUndefined"
  by (simp add: handler_def env_value_def template_def try_block_def text_request_def
      destructure_def upstream_null_def upstream_numeric_message_def respond_def
      first_candidate_def upstream_error_def dot_def opt_dot_def internal_error_def Let_def)

section \<open>Exceptions\<close>

text \<open>
  C3. For every \<^verbatim>\<open>POST\<close> invocation with the secret set, if \<^verbatim>\<open>req.json()\<close> rejects, or
  destructuring the decoded body throws, or \<^verbatim>\<open>fetch\<close> rejects, or decoding the upstream
  response rejects, each with an exception \<open>e\<close>, the handler catches it: it answers with
  status 500 and the body \<^verbatim>\<open>{ message: "Internal server error during computation." }\<close>
  (a \<^verbatim>\<open>message\<close>, never a \<^verbatim>\<open>solution\<close>), and the last thing it does is to log \<open>e\<close>.
\<close>

theorem exceptions_caught:
  assumes "req_method req = ''POST''"
    and "apiKey = Some key" and "key \<noteq> []"
    and "req_json req = Inl e \<or>
         (\<exists>b. req_json req = Inr b \<and>
            (destructure b = Inl e \<or>
             (\<exists>userQuery base64Image mimeType.
                destructure b = Inr (userQuery, base64Image, mimeType) \<and>
                (fetch (outbound key userQuery base64Image mimeType) = Inl e \<or>
                 fetch (outbound key userQuery base64Image mimeType) = Inr (Inl e)))))"
  shows "fst (handler apiKey fetch req) =
           \<lparr>status = 500,
            body = JObj [(''message'', JStr ''Internal server error during computation.'')]\<rparr> \<and>
         last (snd (handler apiKey fetch req)) =
           ConsoleError [LStr ''Backend processing failed:'', LExn e]"
proof -
  have "\<exists>evs. try_block key fetch req = (Inl e, evs)"
    using assms(4) by (auto simp: try_block_def)
  then show ?thesis
    using assms(1,2,3)
    by (auto simp: handler_def env_value_def template_def internal_error_def)
qed

theorem exceptions_caught_witness:
  "fst (handler (Some ''k'') upstream_down text_request) =
     \<lparr>status = 500,
      body = JObj [(''message'', JStr ''Internal server error during computation.'')]\<rparr> \<and>
   last (snd (handler (Some ''k'') upstream_down text_request)) =
     ConsoleError [LStr ''Backend processing failed:'', LExn (OtherError ''fetch failed'')]"
  by (rule exceptions_caught [where key = "''k''"])
     (simp_all add: text_request_def upstream_down_def destructure_def)

section \<open>Status codes\<close>

text \<open>
  C9. For every invocation: a method other than \<^verbatim>\<open>POST\<close> gives status 405; a \<^verbatim>\<open>POST\<close>
  without a usable secret gives status 500 with the configuration message; a \<^verbatim>\<open>POST\<close> with
  the secret gives status 500 with the internal-error message, or status 500 with a
  \<^verbatim>\<open>{ solution: string }\<close> body, or status 200 with the solution. So every error response
  but the wrong-method one has status 500, and the three kinds of error differ in the body
  only: \<^verbatim>\<open>message\<close> against \<^verbatim>\<open>solution\<close>, and the text of the message.
\<close>

theorem error_statuses:
  "(req_method req \<noteq> ''POST'' \<longrightarrow>
      fst (handler apiKey fetch req) =
        \<lparr>status = 405, body = JObj [(''message'', JStr ''Method Not Allowed'')]\<rparr>) \<and>
   (req_method req = ''POST'' \<and> \<not> truthy (env_value apiKey) \<longrightarrow>
      fst (handler apiKey fetch req) =
        \<lparr>status = 500,
         body = JObj [(''message'', JStr ''Server configuration error: API Key missing.'')]\<rparr>) \<and>
   (req_method req = ''POST'' \<and> truthy (env_value apiKey) \<longrightarrow>
      fst (handler apiKey fetch req) =
        \<lparr>status = 500,
         body = JObj [(''message'', JStr ''Internal server error during computation.'')]\<rparr> \<or>
      (\<exists>s. fst (handler apiKey fetch req) =
             \<lparr>status = 500, body = JObj [(''solution'', JStr s)]\<rparr>) \<or>
      (\<exists>t. truthy t \<and>
           fst (handler apiKey fetch req) = \<lparr>status = 200, body = JObj [(''solution'', t)]\<rparr>))"
proof (intro conjI impI)
  assume "req_method req \<noteq> ''POST''"
  then show "fst (handler apiKey fetch req) =
      \<lparr>status = 405, body = JObj [(''message'', JStr ''Method Not Allowed'')]\<rparr>"
    by (simp add: handler_def method_not_allowed_def)
next
  assume "req_method req = ''POST'' \<and> \<not> truthy (env_value apiKey)"
  then show "fst (handler apiKey fetch req) =
      \<lparr>status = 500,
       body = JObj [(''message'', JStr ''Server configuration error: API Key missing.'')]\<rparr>"
    by (simp add: handler_def config_error_def)
next
  assume a: "req_method req = ''POST'' \<and> truthy (env_value apiKey)"
  obtain r evs where t: "try_block (template apiKey) fetch req = (r, evs)"
    by (cases "try_block (template apiKey) fetch req")
  show "fst (handler apiKey fetch req) =
      \<lparr>status = 500,
       body = JObj [(''message'', JStr ''Internal server error during computation.'')]\<rparr> \<or>
    (\<exists>s. fst (handler apiKey fetch req) =
           \<lparr>status = 500, body = JObj [(''solution'', JStr s)]\<rparr>) \<or>
    (\<exists>t. truthy t \<and>
         fst (handler apiKey fetch req) = \<lparr>status = 200, body = JObj [(''solution'', t)]\<rparr>)"
  proof (cases r)
    case (Inl e)
    then show ?thesis using a t by (simp add: handler_def internal_error_def)
  next
    case (Inr res)
    then have "fst (handler apiKey fetch req) = res" using a t by (simp add: handler_def)
    then show ?thesis using try_block_shape [of "template apiKey" fetch req res evs] t Inr by simp
  qed
qed

theorem error_statuses_witness:
  "fst (handler (Some ''k'') upstream_down text_request) =
     \<lparr>status = 500,
      body = JObj [(''message'', JStr ''Internal server error during computation.'')]\<rparr> \<and>
   fst (handler None upstream_down text_request) =
     \<lparr>status = 500,
      body = JObj [(''message'', JStr ''Server configuration error: API Key missing.'')]\<rparr> \<and>
   fst (handler None upstream_down get_request) =
     \<lparr>status = 405, body = JObj [(''message'', JStr ''Method Not Allowed'')]\<rparr>"
proof -
  have 1: "fst (handler (Some ''k'') upstream_down text_request) =
     \<lparr>status = 500,
      body = JObj [(''message'', JStr ''Internal server error during computation.'')]\<rparr>"
    by (simp add: handler_def env_value_def template_def try_block_def text_request_def
        destructure_def upstream_down_def internal_error_def)
  show ?thesis
    using 1 error_statuses [of text_request None upstream_down]
      error_statuses [of get_request None upstream_down]
    by (simp add: text_request_def get_request_def env_value_def)
qed

end
